theory Spec2Isabelle
  imports Main "HOL-Library.Word" "HOL-Library.Multiset" "HOL-Library.Char_ord"
    "HOL-Library.List_Lexorder" "HOL-Library.Product_Lexorder"
begin

section \<open>Python values, exceptions and dictionaries\<close>

text \<open>
  The data-access layer moves dynamically typed cells between the database and plain
  dictionaries. A cell is \<open>None\<close> (SQL NULL), an integer, a string or a float; a float is
  only ever copied, so it is kept as its 64-bit pattern.
\<close>

datatype pyval = PNone | PInt int | PStr string | PFloat "64 word"

text \<open>
  The exceptions the modelled code can raise. \<open>IntegrityError\<close> is the database's answer
  to a broken constraint; \<open>DatabaseError\<close> stands for its other refusals of a statement
  (a syntax error), whose subclass depends on the driver.
\<close>

datatype error =
    AttributeError
  | KeyError
  | IndexError
  | UnboundLocalError
  | UnmappedInstanceError
  | IntegrityError
  | DatabaseError

text \<open>
  A \<open>dict\<close> with string keys, in insertion order. \<open>dict_setitem\<close> is \<open>d[k] = v\<close>:
  an existing key keeps its place, a new key goes to the end. \<open>dict_update\<close> is
  \<open>d.update(other)\<close> and \<open>dict_pop\<close> is \<open>d.pop(k)\<close>, which raises \<open>KeyError\<close> on a
  missing key.
\<close>

type_synonym pydict = "(string \<times> pyval) list"

fun dict_setitem :: "pydict \<Rightarrow> string \<Rightarrow> pyval \<Rightarrow> pydict" where
  "dict_setitem [] k v = [(k, v)]"
| "dict_setitem ((k', v') # d) k v =
     (if k' = k then (k, v) # d else (k', v') # dict_setitem d k v)"

fun dict_update :: "pydict \<Rightarrow> pydict \<Rightarrow> pydict" where
  "dict_update d [] = d"
| "dict_update d ((k, v) # other) = dict_update (dict_setitem d k v) other"

definition dict_pop :: "pydict \<Rightarrow> string \<Rightarrow> error + (pyval \<times> pydict)" where
  "dict_pop d k =
     (case map_of d k of
        None \<Rightarrow> Inl KeyError
      | Some v \<Rightarrow> Inr (v, filter (\<lambda>kv. fst kv \<noteq> k) d))"

text \<open>Sequencing of calls that may raise: the first exception ends the evaluation.\<close>

definition and_then :: "error + 'a \<Rightarrow> ('a \<Rightarrow> error + 'b) \<Rightarrow> error + 'b" where
  "and_then m f = (case m of Inl e \<Rightarrow> Inl e | Inr x \<Rightarrow> f x)"

text \<open>A list comprehension \<open>[f(x) for x in xs]\<close> whose body may raise.\<close>

fun comprehension :: "('a \<Rightarrow> error + 'b) \<Rightarrow> 'a list \<Rightarrow> error + 'b list" where
  "comprehension f [] = Inr []"
| "comprehension f (x # xs) =
     and_then (f x) (\<lambda>y. and_then (comprehension f xs) (\<lambda>ys. Inr (y # ys)))"

text \<open>\<open>record[k]\<close> on a result row: positions past the end raise \<open>IndexError\<close>.\<close>

definition item :: "pyval list \<Rightarrow> nat \<Rightarrow> error + pyval" where
  "item record k = (if k < length record then Inr (record ! k) else Inl IndexError)"

text \<open>\<open>.first()\<close> on a result: the first row, or \<open>None\<close>.\<close>

fun first :: "'a list \<Rightarrow> 'a option" where
  "first [] = None"
| "first (x # xs) = Some x"

section \<open>The persisted schema (models.py)\<close>

text \<open>
  One record per table, columns in declaration order. Every cell is a \<open>pyval\<close>: the
  Python layer never checks a column type, and all columns but the primary key are nullable.
\<close>

record animal_center =
  ac_id :: pyval
  ac_login :: pyval
  ac_password_hash :: pyval
  ac_address :: pyval

record animal =
  animal_id :: pyval
  animal_center_id :: pyval
  animal_name :: pyval
  animal_description :: pyval
  animal_age :: pyval
  animal_species_id :: pyval
  animal_price :: pyval

record species =
  species_id :: pyval
  species_name :: pyval
  species_description :: pyval
  species_price :: pyval

text \<open>The database: each table is the list of its rows, in the order a scan delivers them.\<close>

record db =
  animal_center_tbl :: "animal_center list"
  animal_tbl :: "animal list"
  species_tbl :: "species list"

text \<open>
  \<open>Model.query.get(ident)\<close>: the entity whose primary key is \<open>ident\<close>, or \<open>None\<close>.
\<close>

definition query_get :: "('r \<Rightarrow> pyval) \<Rightarrow> 'r list \<Rightarrow> int \<Rightarrow> 'r option" where
  "query_get pk tbl ident = find (\<lambda>r. pk r = PInt ident) tbl"

text \<open>\<open>SELECT *\<close> delivers the columns of a row in declaration order.\<close>

definition animal_row :: "animal \<Rightarrow> pyval list" where
  "animal_row r =
     [animal_id r, animal_center_id r, animal_name r, animal_description r,
      animal_age r, animal_species_id r, animal_price r]"

definition species_row :: "species \<Rightarrow> pyval list" where
  "species_row r = [species_id r, species_name r, species_description r, species_price r]"

section \<open>Animal capability\<close>

subsection \<open>Raw SQL (dao.py, AnimalsDAO)\<close>

definition AnimalsDAO_deserialize :: "pyval list \<Rightarrow> bool \<Rightarrow> error + pydict" where
  "AnimalsDAO_deserialize record long =
     and_then (item record 0) (\<lambda>v0.
     and_then (item record 2) (\<lambda>v2.
       let data = [(''id'', v0), (''name'', v2)] in
       if long then
         and_then (item record 1) (\<lambda>v1.
         and_then (item record 3) (\<lambda>v3.
         and_then (item record 4) (\<lambda>v4.
         and_then (item record 5) (\<lambda>v5.
         and_then (item record 6) (\<lambda>v6.
           Inr (dict_update data
                  [(''center_id'', v1), (''description'', v3), (''age'', v4),
                   (''species_id'', v5), (''price'', v6)]))))))
       else Inr data))"

text \<open>\<open>SELECT * FROM animal;\<close>\<close>

definition AnimalsDAO_get_animals :: "db \<Rightarrow> error + pydict list" where
  "AnimalsDAO_get_animals d =
     (let records = map animal_row (animal_tbl d)
      in comprehension (\<lambda>record. AnimalsDAO_deserialize record False) records)"

text \<open>
  \<open>SELECT * FROM animal WHERE id={}\<close> with the identifier interpolated, then \<open>.first()\<close>.
  A row is truthy when it has at least one column.
\<close>

definition AnimalsDAO_get_animal :: "db \<Rightarrow> int \<Rightarrow> error + pydict option" where
  "AnimalsDAO_get_animal d ident =
     (let record = first (map animal_row
                            (filter (\<lambda>r. animal_id r = PInt ident) (animal_tbl d)))
      in case record of
           None \<Rightarrow> Inr None
         | Some rec \<Rightarrow>
             if rec \<noteq> [] then and_then (AnimalsDAO_deserialize rec True) (\<lambda>m. Inr (Some m))
             else Inr None)"

text \<open>\<open>DELETE FROM animal WHERE id={}\<close>; nothing is returned.\<close>

definition AnimalsDAO_delete_animal :: "db \<Rightarrow> int \<Rightarrow> error + db" where
  "AnimalsDAO_delete_animal d ident =
     Inr (d\<lparr>animal_tbl := filter (\<lambda>r. animal_id r \<noteq> PInt ident) (animal_tbl d)\<rparr>)"

subsection \<open>ORM (dao_models.py, AnimalORM)\<close>

definition AnimalORM_deserialize :: "animal \<Rightarrow> bool \<Rightarrow> pydict" where
  "AnimalORM_deserialize record long =
     (let data = [(''id'', animal_id record), (''name'', animal_name record)] in
      if long then
        dict_update data
          [(''center_id'', animal_center_id record),
           (''description'', animal_description record),
           (''age'', animal_age record),
           (''species_id'', animal_species_id record),
           (''price'', animal_price record)]
      else data)"

definition AnimalORM_get_animals :: "db \<Rightarrow> error + pydict list" where
  "AnimalORM_get_animals d =
     Inr (map (\<lambda>animal. AnimalORM_deserialize animal False) (animal_tbl d))"

definition AnimalORM_get_animal :: "db \<Rightarrow> int \<Rightarrow> error + pydict option" where
  "AnimalORM_get_animal d ident =
     (case query_get animal_id (animal_tbl d) ident of
        Some animal \<Rightarrow> Inr (Some (AnimalORM_deserialize animal True))
      | None \<Rightarrow> Inr None)"

definition session_delete :: "db \<Rightarrow> animal option \<Rightarrow> error + db" where
  \<comment> \<open>\<open>db.session.delete(obj)\<close> followed by \<open>db.session.commit()\<close>: the session refuses
      an object that is not a mapped instance (\<open>None\<close>), otherwise the row with the
      object's primary key is deleted.\<close>
  "session_delete d obj =
     (case obj of
        None \<Rightarrow> Inl UnmappedInstanceError
      | Some a \<Rightarrow>
          Inr (d\<lparr>animal_tbl := filter (\<lambda>r. animal_id r \<noteq> animal_id a) (animal_tbl d)\<rparr>))"

definition AnimalORM_delete_animal :: "db \<Rightarrow> int \<Rightarrow> error + db" where
  "AnimalORM_delete_animal d ident =
     (let animal = query_get animal_id (animal_tbl d) ident
      in session_delete d animal)"

text \<open>
  \<open>setattr(animal, key, value)\<close> on a mapped entity. A key that names a column changes
  that column; any other ordinary key becomes a plain attribute of the Python object,
  which the commit does not persist.
\<close>

definition animal_setattr :: "animal \<Rightarrow> string \<Rightarrow> pyval \<Rightarrow> animal" where
  "animal_setattr a key v =
     (if key = ''id'' then a\<lparr>animal_id := v\<rparr>
      else if key = ''center_id'' then a\<lparr>animal_center_id := v\<rparr>
      else if key = ''name'' then a\<lparr>animal_name := v\<rparr>
      else if key = ''description'' then a\<lparr>animal_description := v\<rparr>
      else if key = ''age'' then a\<lparr>animal_age := v\<rparr>
      else if key = ''species_id'' then a\<lparr>animal_species_id := v\<rparr>
      else if key = ''price'' then a\<lparr>animal_price := v\<rparr>
      else a)"

text \<open>The loop \<open>for key, value in data_upd.items(): setattr(animal, key, value)\<close>.\<close>

fun setattr_items :: "animal \<Rightarrow> pydict \<Rightarrow> animal" where
  "setattr_items a [] = a"
| "setattr_items a ((key, v) # items) = setattr_items (animal_setattr a key v) items"

subsection \<open>The engine's update of animal rows\<close>

text \<open>
  The declared columns of the animal table (models.py, lines 111 to 117): their types,
  the primary key \<open>id\<close>, the foreign keys \<open>center_id\<close> and \<open>species_id\<close>. All columns
  but the primary key may hold NULL.
\<close>

datatype coltype = ColInteger | ColString nat | ColFloat

definition animal_coltype :: "string \<Rightarrow> coltype option" where
  "animal_coltype key =
     (if key = ''id'' then Some ColInteger
      else if key = ''center_id'' then Some ColInteger
      else if key = ''name'' then Some (ColString 40)
      else if key = ''description'' then Some (ColString 500)
      else if key = ''age'' then Some ColInteger
      else if key = ''species_id'' then Some ColInteger
      else if key = ''price'' then Some ColFloat
      else None)"

text \<open>A float that is neither an infinity nor a NaN: its exponent bits are not all set.\<close>

definition float_finite :: "64 word \<Rightarrow> bool" where
  "float_finite w = (take_bit 11 (drop_bit 52 w) \<noteq> (2047 :: 64 word))"

text \<open>
  A value of the column's own type, which the engine stores as it is: an integer of 32
  bits (the least an Integer column offers), a text within the declared length, a finite
  float.
\<close>

definition typed_cell :: "coltype \<Rightarrow> pyval \<Rightarrow> bool" where
  "typed_cell t v =
     (case (t, v) of
        (ColInteger, PInt n) \<Rightarrow> - 2147483648 \<le> n \<and> n \<le> 2147483647
      | (ColString m, PStr s) \<Rightarrow> length s \<le> m
      | (ColFloat, PFloat w) \<Rightarrow> float_finite w
      | _ \<Rightarrow> False)"

text \<open>The row a foreign key refers to exists.\<close>

definition references_ok :: "db \<Rightarrow> string \<Rightarrow> pyval \<Rightarrow> bool" where
  "references_ok d key v =
     (if key = ''center_id'' then v \<in> set (map ac_id (animal_center_tbl d))
      else if key = ''species_id'' then v \<in> set (map species_id (species_tbl d))
      else True)"

text \<open>
  A cell for a column that the engines agree on: NULL, or a value of the column's type
  whose reference, if it is one, exists. A value of another type, an integer or a text
  beyond the declared size, or a dangling reference is converted, stored or refused
  depending on the engine.
\<close>

definition cell_fits :: "db \<Rightarrow> string \<times> pyval \<Rightarrow> bool" where
  "cell_fits d kv =
     (case animal_coltype (fst kv) of
        None \<Rightarrow> False
      | Some t \<Rightarrow>
          if snd kv = PNone then True
          else typed_cell t (snd kv) \<and> references_ok d (fst kv) (snd kv))"

text \<open>
  The primary key of the animal table (\<open>id\<close>, \<open>primary_key=True\<close>): no two rows share
  an identifier and none is NULL.
\<close>

definition primary_key_ok :: "pyval list \<Rightarrow> bool" where
  "primary_key_ok ids = (distinct ids \<and> PNone \<notin> set ids)"

text \<open>
  \<open>UPDATE animal SET ... WHERE id = ident\<close> with the cells to store. The rows under that
  identifier take the cells; a result that breaks the primary key is refused with
  \<open>IntegrityError\<close> and nothing is stored. The outcome is \<open>None\<close>, not modelled, when a cell
  is not one the engines agree on.
\<close>

definition sql_update_animal :: "db \<Rightarrow> pyval \<Rightarrow> pydict \<Rightarrow> (error + db) option" where
  "sql_update_animal d ident cells =
     (if list_all (cell_fits d) cells then
        (let rows = map (\<lambda>r. if animal_id r = ident then setattr_items r cells else r)
                      (animal_tbl d)
         in if primary_key_ok (map animal_id rows) then Some (Inr (d\<lparr>animal_tbl := rows\<rparr>))
            else Some (Inl IntegrityError))
      else None)"

subsection \<open>ORM: update\<close>

definition session_commit_animal :: "db \<Rightarrow> int \<Rightarrow> pydict \<Rightarrow> (error + db) option" where
  \<comment> \<open>\<open>db.session.commit()\<close> after the loop: the flush sends the assignments to columns
      as one \<open>UPDATE\<close> of the row that was loaded under primary key \<open>ident\<close>, the values
      as bound parameters.\<close>
  "session_commit_animal d ident items =
     sql_update_animal d (PInt ident)
       (filter (\<lambda>kv. animal_coltype (fst kv) \<noteq> None) items)"

definition AnimalORM_update_animal :: "db \<Rightarrow> pydict \<Rightarrow> int \<Rightarrow> (error + db) option" where
  \<comment> \<open>The parameter \<open>animal\<close> of the source is overwritten at once and left out. With no
      entity the first \<open>setattr\<close> on \<open>None\<close> raises; an empty mapping never reaches it.\<close>
  "AnimalORM_update_animal d data_upd ident =
     (case query_get animal_id (animal_tbl d) ident of
        None \<Rightarrow> if data_upd = [] then Some (Inr d) else Some (Inl AttributeError)
      | Some animal \<Rightarrow> session_commit_animal d ident data_upd)"

subsection \<open>Raw SQL: update\<close>

text \<open>
  \<open>AnimalsDAO.update_animal\<close> reads only its \<open>animal\<close> mapping. It pops \<open>id\<close> from a copy
  and sends \<open>UPDATE animal SET k='v',... WHERE id=...\<close>: every remaining key is placed as a
  column name, every value as \<open>str(value)\<close> between single quotes, the popped identifier
  as \<open>str(animal_id)\<close> without quotes.
\<close>

text \<open>
  \<open>"{}='{}'".format(key, value)\<close> and what the engine stores for it in a column of type
  \<open>t\<close>. The decimal text of an integer is read back as that integer by an Integer column,
  the text of a finite float as that float by a Float column, and a String column keeps the
  text between the quotes: the string itself, or the four letters \<open>None\<close> for Python's
  \<open>None\<close>. The result is \<open>None\<close> where the statement leaves what this model covers: a
  single quote inside the string ends the literal early, and a literal of another type
  than its column is converted by the engine, which this model does not follow.
\<close>

definition quoted_literal :: "coltype \<Rightarrow> pyval \<Rightarrow> pyval option" where
  "quoted_literal t v =
     (case v of
        PInt n \<Rightarrow> if t = ColInteger then Some (PInt n) else None
      | PFloat w \<Rightarrow> if t = ColFloat \<and> float_finite w then Some (PFloat w) else None
      | PStr s \<Rightarrow>
          (case t of
             ColString m \<Rightarrow> if CHR 0x27 \<notin> set s then Some (PStr s) else None
           | _ \<Rightarrow> None)
      | PNone \<Rightarrow> (case t of ColString m \<Rightarrow> Some (PStr ''None'') | _ \<Rightarrow> None))"

text \<open>The \<open>SET\<close> clause: per item the column and the cell its literal yields.\<close>

definition set_clause :: "pydict \<Rightarrow> pydict option" where
  "set_clause items =
     those (map (\<lambda>(key, v).
                   case animal_coltype key of
                     None \<Rightarrow> None
                   | Some t \<Rightarrow> map_option (Pair key) (quoted_literal t v)) items)"

text \<open>
  \<open>db.engine.execute\<close> on the statement. With no item left the text is
  \<open>UPDATE animal SET  WHERE id=...\<close>, a syntax error. Otherwise, with an integer identifier
  and a \<open>SET\<close> clause this model covers, the engine runs the update; for the rest the
  outcome is \<open>None\<close>, not modelled.
\<close>

definition execute_update :: "pydict \<Rightarrow> pyval \<Rightarrow> db \<Rightarrow> (error + db) option" where
  "execute_update items ident d =
     (if items = [] then Some (Inl DatabaseError)
      else case (set_clause items, ident) of
             (Some cells, PInt n) \<Rightarrow> sql_update_animal d (PInt n) cells
           | _ \<Rightarrow> None)"

definition AnimalsDAO_update_animal :: "db \<Rightarrow> pydict option \<Rightarrow> (error + db) option" where
  \<comment> \<open>\<open>animal\<close> defaults to \<open>None\<close>, whose copy has no \<open>pop\<close>. The parameters \<open>data_upd\<close>
      and \<open>animal_id\<close> of the source are not read (the latter is overwritten).\<close>
  "AnimalsDAO_update_animal d animal =
     (case animal of
        None \<Rightarrow> Some (Inl AttributeError)
      | Some a \<Rightarrow>
          (case dict_pop a ''id'' of
             Inl e \<Rightarrow> Some (Inl e)
           | Inr (ident, a') \<Rightarrow> execute_update a' ident d))"


subsection \<open>Entity methods (models.py, Animal)\<close>

definition Animal_deserialize :: "animal \<Rightarrow> bool \<Rightarrow> pydict" where
  "Animal_deserialize self long =
     (let data = [(''id'', animal_id self), (''name'', animal_name self)] in
      if long then
        dict_update data
          [(''center_id'', animal_center_id self),
           (''description'', animal_description self),
           (''age'', animal_age self),
           (''species_id'', animal_species_id self),
           (''price'', animal_price self)]
      else data)"

definition Animal_get_animals :: "db \<Rightarrow> error + pydict list" where
  "Animal_get_animals d =
     Inr (map (\<lambda>animal. Animal_deserialize animal False) (animal_tbl d))"

definition Animal_get_animal :: "db \<Rightarrow> int \<Rightarrow> error + pydict option" where
  \<comment> \<open>\<open>animal.deserialize(long=True)\<close> is called on whatever \<open>get\<close> returned.\<close>
  "Animal_get_animal d ident =
     (case query_get animal_id (animal_tbl d) ident of
        Some animal \<Rightarrow> Inr (Some (Animal_deserialize animal True))
      | None \<Rightarrow> Inl AttributeError)"

definition Animal_delete_animal :: "db \<Rightarrow> int \<Rightarrow> error + db" where
  "Animal_delete_animal d ident =
     (let animal = query_get animal_id (animal_tbl d) ident
      in session_delete d animal)"




section \<open>Animal-Center capability\<close>

text \<open>What \<open>get_center_inform\<close> hands back: \<open>None\<close>, one mapping, or a pair.\<close>

datatype retval = RetNone | RetDict pydict | RetPair pydict "pydict list"

text \<open>
  \<open>check_password_hash\<close> of the password-hashing library is a parameter: it takes the
  stored hash and the plaintext, and may itself raise on a malformed hash.
\<close>

type_synonym hash_check = "pyval \<Rightarrow> string \<Rightarrow> error + bool"

subsection \<open>Raw SQL (dao.py, AnimalCentersDAO)\<close>

definition AnimalCentersDAO_deserialize :: "animal_center \<Rightarrow> bool \<Rightarrow> pydict" where
  \<comment> \<open>The row is read by column name here (\<open>record.id\<close>, \<open>record.login\<close>).\<close>
  "AnimalCentersDAO_deserialize record long =
     (let data = [(''id'', ac_id record), (''login'', ac_login record)] in
      if long then dict_update data [(''address'', ac_address record)] else data)"

text \<open>
  \<open>SELECT * FROM animal_center WHERE id={};\<close> then \<open>.first()\<close>, and
  \<open>SELECT * FROM animal WHERE center_id={};\<close>. A center row has four columns and is truthy.
\<close>

definition AnimalCentersDAO_get_center_inform :: "db \<Rightarrow> int \<Rightarrow> error + retval" where
  "AnimalCentersDAO_get_center_inform d ident =
     (let record = first (filter (\<lambda>r. ac_id r = PInt ident) (animal_center_tbl d));
          animals = map animal_row
                      (filter (\<lambda>a. animal_center_id a = PInt ident) (animal_tbl d))
      in case record of
           Some rec \<Rightarrow>
             and_then (comprehension (\<lambda>animal. AnimalsDAO_deserialize animal False) animals)
               (\<lambda>shorts. Inr (RetPair (AnimalCentersDAO_deserialize rec True) shorts))
         | None \<Rightarrow> Inr RetNone)"

text \<open>
  \<open>SELECT password_hash FROM animal_center WHERE id ={};\<close> then \<open>.first()\<close>, then
  \<open>record.password_hash\<close> on the result, which is \<open>None\<close> when no row matched.
\<close>

definition AnimalCentersDAO_check_password ::
  "hash_check \<Rightarrow> db \<Rightarrow> string \<Rightarrow> int \<Rightarrow> error + bool" where
  "AnimalCentersDAO_check_password check_password_hash d password user_id =
     (let record = first (map ac_password_hash
                            (filter (\<lambda>r. ac_id r = PInt user_id) (animal_center_tbl d)))
      in case record of
           None \<Rightarrow> Inl AttributeError
         | Some password_hash \<Rightarrow> check_password_hash password_hash password)"

subsection \<open>ORM (dao_models.py, AnimalCenterORM)\<close>

definition AnimalCenterORM_deserialize :: "animal_center \<Rightarrow> bool \<Rightarrow> pydict" where
  "AnimalCenterORM_deserialize record long =
     (let data = [(''id'', ac_id record), (''login'', ac_login record)] in
      if long then dict_update data [(''address'', ac_address record)] else data)"

definition AnimalCenterORM_check_password ::
  "hash_check \<Rightarrow> db \<Rightarrow> string \<Rightarrow> int \<Rightarrow> error + bool" where
  "AnimalCenterORM_check_password check_password_hash d password user_id =
     (case query_get ac_id (animal_center_tbl d) user_id of
        None \<Rightarrow> Inl AttributeError
      | Some record \<Rightarrow> check_password_hash (ac_password_hash record) password)"

definition AnimalCenter_animals :: "animal_center \<Rightarrow> error + animal list" where
  \<comment> \<open>\<open>record.animals\<close>: the class \<open>AnimalCenter\<close> declares \<open>id\<close>, \<open>login\<close>,
      \<open>password_hash\<close> and \<open>address\<close>; its relationship \<open>animals\<close> is commented out
      (models.py, line 22) and \<open>Animal\<close> declares no back-reference, so the attribute
      does not exist.\<close>
  "AnimalCenter_animals record = Inl AttributeError"

definition AnimalCenterORM_get_center_inform :: "db \<Rightarrow> int \<Rightarrow> error + retval" where
  "AnimalCenterORM_get_center_inform d ident =
     (case query_get ac_id (animal_center_tbl d) ident of
        Some record \<Rightarrow>
          (let center = AnimalCenterORM_deserialize record True in
           and_then (AnimalCenter_animals record)
             (\<lambda>animals.
                Inr (RetPair center
                       (map (\<lambda>animal. AnimalORM_deserialize animal False) animals))))
      | None \<Rightarrow> Inr RetNone)"

subsection \<open>Entity methods (models.py, AnimalCenter)\<close>

definition AnimalCenter_check_password ::
  "hash_check \<Rightarrow> animal_center \<Rightarrow> string \<Rightarrow> int option \<Rightarrow> error + bool" where
  \<comment> \<open>\<open>user_id\<close> defaults to \<open>None\<close> and is not read.\<close>
  "AnimalCenter_check_password check_password_hash self password user_id =
     check_password_hash (ac_password_hash self) password"

definition AnimalCenter_deserialize :: "animal_center \<Rightarrow> bool \<Rightarrow> pydict" where
  "AnimalCenter_deserialize self long =
     (let data = [(''id'', ac_id self), (''login'', ac_login self)] in
      if long then dict_update data [(''address'', ac_address self)] else data)"

definition AnimalCenter_get_center_inform :: "db \<Rightarrow> int \<Rightarrow> error + retval" where
  "AnimalCenter_get_center_inform d ident =
     (case query_get ac_id (animal_center_tbl d) ident of
        Some record \<Rightarrow> Inr (RetDict (AnimalCenter_deserialize record True))
      | None \<Rightarrow> Inr RetNone)"

section \<open>Species capability\<close>

subsection \<open>Deserializers\<close>

definition SpeciesDAO_deserialize :: "pyval list \<Rightarrow> bool \<Rightarrow> error + pydict" where
  "SpeciesDAO_deserialize record long =
     and_then (item record 0) (\<lambda>v0.
     and_then (item record 1) (\<lambda>v1.
       let data = [(''species_name'', v0), (''count_of_animals'', v1)] in
       if long then
         and_then (item record 0) (\<lambda>w0.
         and_then (item record 1) (\<lambda>w1.
         and_then (item record 2) (\<lambda>w2.
         and_then (item record 3) (\<lambda>w3.
           Inr [(''id'', w0), (''name'', w1), (''description'', w2), (''price'', w3)]))))
       else Inr data))"

definition SpeciesORM_deserialize :: "species \<Rightarrow> bool \<Rightarrow> error + pydict" where
  \<comment> \<open>\<open>data\<close> is bound only under \<open>if long\<close>; \<open>return data\<close> without it reads an
      unbound local.\<close>
  "SpeciesORM_deserialize record long =
     (if long then
        Inr [(''id'', species_id record), (''name'', species_name record),
             (''description'', species_description record), (''price'', species_price record)]
      else Inl UnboundLocalError)"

definition Species_deserialize :: "species \<Rightarrow> bool \<Rightarrow> error + pydict" where
  "Species_deserialize self long =
     (if long then
        Inr [(''id'', species_id self), (''name'', species_name self),
             (''description'', species_description self), (''price'', species_price self)]
      else Inl UnboundLocalError)"

subsection \<open>Listing with animal counts\<close>

text \<open>SQL equality: a comparison with NULL is never true.\<close>

definition sql_eq :: "pyval \<Rightarrow> pyval \<Rightarrow> bool" where
  "sql_eq a b = (a \<noteq> PNone \<and> b \<noteq> PNone \<and> a = b)"

text \<open>
  \<open>species LEFT OUTER JOIN animal ON species.id = animal.species_id\<close>: every species
  row once per matching animal, and once with no animal when none matches.
\<close>

definition left_outer_join :: "species list \<Rightarrow> animal list \<Rightarrow> (species \<times> animal option) list" where
  "left_outer_join ss as =
     concat (map (\<lambda>s.
       let ms = filter (\<lambda>a. sql_eq (species_id s) (animal_species_id a)) as
       in if ms = [] then [(s, None)] else map (\<lambda>a. (s, Some a)) ms) ss)"

text \<open>\<open>count(animal.name)\<close> over a group: the joined rows whose animal name is not NULL.\<close>

definition count_animal_name :: "(species \<times> animal option) list \<Rightarrow> int" where
  "count_animal_name grp =
     int (length (filter (\<lambda>sa. case snd sa of None \<Rightarrow> False
                                 | Some a \<Rightarrow> animal_name a \<noteq> PNone) grp))"

text \<open>
  The order in which the engine delivers values of different kinds: NULL first, then
  integers by value, then text by its characters. The grouping keys of the listings are an
  Integer and a String column; a float is never one of them and is placed last, by its
  bits, to keep the order total.
\<close>

definition sort_rank :: "pyval \<Rightarrow> nat \<times> int \<times> string" where
  "sort_rank v =
     (case v of
        PNone \<Rightarrow> (0, 0, [])
      | PInt n \<Rightarrow> (1, n, [])
      | PStr s \<Rightarrow> (2, 0, s)
      | PFloat w \<Rightarrow> (3, uint w, []))"

text \<open>
  The rows split into groups of equal key, each with the first row of the group (the
  source of its non-aggregated columns) and all of its rows.
\<close>

fun partition_by :: "('r \<Rightarrow> 'k) \<Rightarrow> 'r list \<Rightarrow> ('r \<times> 'r list) list" where
  "partition_by key [] = []"
| "partition_by key (r # rs) =
     (r, r # filter (\<lambda>x. key x = key r) rs)
       # partition_by key (filter (\<lambda>x. key x \<noteq> key r) rs)"

text \<open>\<open>GROUP BY key\<close>: one group per distinct key, delivered in ascending order of the key.\<close>

definition group_by :: "('r \<Rightarrow> pyval) \<Rightarrow> 'r list \<Rightarrow> ('r \<times> 'r list) list" where
  "group_by key rows = sort_key (\<lambda>g. sort_rank (key (fst g))) (partition_by key rows)"

text \<open>
  dao.py: \<open>SELECT species.name, count(animal.name) FROM species LEFT OUTER JOIN animal ON
  species.id = animal.species_id GROUP BY species.name\<close>, each row through the deserializer.
\<close>

definition SpeciesDAO_get_species :: "db \<Rightarrow> error + pydict list" where
  "SpeciesDAO_get_species d =
     (let joined = left_outer_join (species_tbl d) (animal_tbl d);
          records = map (\<lambda>(r, grp). [species_name (fst r), PInt (count_animal_name grp)])
                      (group_by (\<lambda>sa. species_name (fst sa)) joined)
      in comprehension (\<lambda>record. SpeciesDAO_deserialize record False) records)"

text \<open>
  dao_models.py: the same join through the query builder, with \<open>group_by(Species.id)\<close>.
\<close>

definition SpeciesORM_get_species :: "db \<Rightarrow> error + pydict list" where
  "SpeciesORM_get_species d =
     (let joined = left_outer_join (species_tbl d) (animal_tbl d);
          result = map (\<lambda>(r, grp). (species_name (fst r), PInt (count_animal_name grp)))
                     (group_by (\<lambda>sa. species_id (fst sa)) joined)
      in Inr (map (\<lambda>(name, count). [(''species_name'', name), (''count_of_animals'', count)])
                result))"

subsection \<open>The aggregation, stated on the tables\<close>

text \<open>
  The animal count of the species that satisfy \<open>P\<close>: the pairs of such a species and an
  animal that refers to it and has a name.
\<close>

definition named_animals :: "db \<Rightarrow> (species \<Rightarrow> bool) \<Rightarrow> int" where
  "named_animals d P =
     int (length (filter (\<lambda>(s, a). P s \<and> animal_species_id a = species_id s \<and>
                                   species_id s \<noteq> PNone \<and> animal_name a \<noteq> PNone)
                    (List.product (species_tbl d) (animal_tbl d))))"

section \<open>Example states\<close>

definition rex :: animal where
  "rex = \<lparr>animal_id = PInt 1, animal_center_id = PInt 7, animal_name = PStr ''Rex'',
          animal_description = PStr ''friendly dog'', animal_age = PInt 3,
          animal_species_id = PInt 2, animal_price = PNone\<rparr>"

definition tom :: animal where
  "tom = \<lparr>animal_id = PInt 2, animal_center_id = PInt 7, animal_name = PStr ''Tom'',
          animal_description = PNone, animal_age = PInt 5,
          animal_species_id = PInt 3, animal_price = PFloat 0\<rparr>"

definition shelter :: animal_center where
  "shelter = \<lparr>ac_id = PInt 7, ac_login = PStr ''shelter'', ac_password_hash = PStr ''h'',
              ac_address = PStr ''Main St''\<rparr>"

definition stray_cat :: species where
  "stray_cat = \<lparr>species_id = PInt 2, species_name = PStr ''cat'',
                species_description = PStr ''found outside'', species_price = PNone\<rparr>"

definition cat :: species where
  "cat = \<lparr>species_id = PInt 3, species_name = PStr ''cat'', species_description = PNone,
          species_price = PNone\<rparr>"

text \<open>One animal, no center, no species.\<close>

definition shop :: db where
  "shop = \<lparr>animal_center_tbl = [], animal_tbl = [rex], species_tbl = []\<rparr>"

text \<open>A center with two animals, and the same rows delivered in the other order.\<close>

definition shop2 :: db where
  "shop2 = \<lparr>animal_center_tbl = [shelter], animal_tbl = [rex, tom], species_tbl = []\<rparr>"

definition shop2_reordered :: db where
  "shop2_reordered =
     \<lparr>animal_center_tbl = [shelter], animal_tbl = [tom, rex], species_tbl = []\<rparr>"

definition dog :: species where
  "dog = \<lparr>species_id = PInt 4, species_name = PStr ''dog'', species_description = PNone,
          species_price = PNone\<rparr>"

text \<open>
  Three species rows, stored neither in the order of their identifiers nor of their
  names: a dog without animals and two rows named cat with one animal each.
\<close>

definition zoo :: db where
  "zoo = \<lparr>animal_center_tbl = [shelter], animal_tbl = [rex, tom],
          species_tbl = [dog, cat, stray_cat]\<rparr>"

text \<open>
  A stand-in for the hashing library in the examples: the stored text is compared as it
  is.
\<close>

definition example_hash_check :: hash_check where
  "example_hash_check h password =
     (case h of PStr s \<Rightarrow> Inr (s = password) | _ \<Rightarrow> Inl AttributeError)"


section \<open>Results\<close>

subsection \<open>Lookups, comprehensions and deserializers\<close>

lemma find_pk_absent:
  "\<forall>r \<in> set tbl. pk r \<noteq> v \<Longrightarrow> find (\<lambda>r. pk r = v) tbl = None"
  by (induction tbl) auto

lemma filter_pk_absent:
  "\<forall>r \<in> set tbl. pk r \<noteq> v \<Longrightarrow> filter (\<lambda>r. pk r = v) tbl = []"
  by (induction tbl) auto

lemma find_pk_present:
  "\<exists>r \<in> set tbl. pk r = v \<Longrightarrow> \<exists>r. find (\<lambda>r. pk r = v) tbl = Some r \<and> pk r = v"
  by (induction tbl) auto

lemma first_filter_pk_present:
  "\<exists>r \<in> set tbl. pk r = v \<Longrightarrow>
     \<exists>r. first (map f (filter (\<lambda>r. pk r = v) tbl)) = Some (f r) \<and> pk r = v"
  by (induction tbl) auto

lemma first_map_filter:
  "first (map f (filter P xs)) = map_option f (find P xs)"
  by (induction xs) auto

lemma comprehension_map:
  "\<forall>x \<in> set xs. f x = Inr (g x) \<Longrightarrow> comprehension f xs = Inr (map g xs)"
  by (induction xs) (auto simp: and_then_def)

lemma AnimalsDAO_deserialize_long:
  "AnimalsDAO_deserialize (animal_row r) True =
     Inr [(''id'', animal_id r), (''name'', animal_name r), (''center_id'', animal_center_id r),
          (''description'', animal_description r), (''age'', animal_age r),
          (''species_id'', animal_species_id r), (''price'', animal_price r)]"
  by (simp add: AnimalsDAO_deserialize_def animal_row_def item_def and_then_def)

lemma AnimalORM_deserialize_long:
  "AnimalORM_deserialize r True =
     [(''id'', animal_id r), (''name'', animal_name r), (''center_id'', animal_center_id r),
          (''description'', animal_description r), (''age'', animal_age r),
          (''species_id'', animal_species_id r), (''price'', animal_price r)]"
  by (simp add: AnimalORM_deserialize_def)

text \<open>The raw-SQL comprehension over rows of the animal table never raises.\<close>

lemma comprehension_animal_rows:
  "comprehension (\<lambda>record. AnimalsDAO_deserialize record False) (map animal_row as) =
     Inr (map (\<lambda>a. [(''id'', animal_id a), (''name'', animal_name a)]) as)"
proof -
  have "comprehension (\<lambda>record. AnimalsDAO_deserialize record False) (map animal_row as) =
      Inr (map (\<lambda>record. [(''id'', record ! 0), (''name'', record ! 2)]) (map animal_row as))"
    by (rule comprehension_map)
       (auto simp: AnimalsDAO_deserialize_def animal_row_def item_def and_then_def)
  then show ?thesis
    by (simp add: animal_row_def comp_def)
qed

subsection \<open>Single-record lookups that find nothing\<close>

text \<open>
  C1. A lookup that matches no row is claimed to return \<open>None\<close> in all three components.
  On the one-animal table, which has no animal 5, the raw-SQL and ORM \<open>get_animal\<close> do
  return \<open>None\<close>, but the entity method \<open>Animal.get_animal\<close> calls \<open>deserialize\<close> on the
  \<open>None\<close> that \<open>query.get\<close> returned and raises \<open>AttributeError\<close>.
\<close>

theorem entity_get_animal_absent_raises:
  "PInt 5 \<notin> set (map animal_id (animal_tbl shop)) \<and>
   Animal_get_animal shop 5 = Inl AttributeError \<and>
   AnimalsDAO_get_animal shop 5 = Inr None \<and>
   AnimalORM_get_animal shop 5 = Inr None"
  by (simp add: Animal_get_animal_def AnimalsDAO_get_animal_def AnimalORM_get_animal_def
      query_get_def shop_def rex_def)

subsection \<open>Deleting an animal that is not stored\<close>

text \<open>
  C2. Deleting an identifier that no row carries is claimed to be a silent no-op in each
  implementation. The raw-SQL \<open>DELETE\<close> is one; the ORM DAO and the entity method pass the
  \<open>None\<close> returned by \<open>query.get\<close> to \<open>session.delete\<close>, which raises
  \<open>UnmappedInstanceError\<close>.
\<close>

theorem session_delete_absent_raises:
  "PInt 5 \<notin> set (map animal_id (animal_tbl shop)) \<and>
   AnimalORM_delete_animal shop 5 = Inl UnmappedInstanceError \<and>
   Animal_delete_animal shop 5 = Inl UnmappedInstanceError \<and>
   AnimalsDAO_delete_animal shop 5 = Inr shop"
  by (simp add: AnimalORM_delete_animal_def Animal_delete_animal_def
      AnimalsDAO_delete_animal_def session_delete_def query_get_def shop_def rex_def)

text \<open>The raw-SQL delete of an absent identifier leaves every state as it is.\<close>

lemma raw_delete_absent_noop:
  assumes "PInt ident \<notin> set (map animal_id (animal_tbl d))"
  shows "AnimalsDAO_delete_animal d ident = Inr d"
proof -
  from assms have "\<forall>r \<in> set (animal_tbl d). animal_id r \<noteq> PInt ident"
    by force
  then have "filter (\<lambda>r. animal_id r \<noteq> PInt ident) (animal_tbl d) = animal_tbl d"
    by (simp add: filter_id_conv)
  then show ?thesis
    by (simp add: AnimalsDAO_delete_animal_def)
qed

subsection \<open>Get animal\<close>

text \<open>
  C3. In the raw-SQL DAO and in the ORM DAO, \<open>get_animal\<close> on an identifier that some row
  of the animal table carries returns a mapping with the keys \<open>id\<close>, \<open>name\<close>,
  \<open>center_id\<close>, \<open>description\<close>, \<open>age\<close>, \<open>species_id\<close>, \<open>price\<close> whose \<open>id\<close> is the
  requested identifier (the same mapping from both); on an identifier that no row carries
  it returns \<open>None\<close>.
\<close>

theorem get_animal_by_id:
  "(PInt ident \<in> set (map animal_id (animal_tbl d)) \<longrightarrow>
      (\<exists>m. AnimalsDAO_get_animal d ident = Inr (Some m) \<and>
           AnimalORM_get_animal d ident = Inr (Some m) \<and>
           map fst m = [''id'', ''name'', ''center_id'', ''description'', ''age'',
                        ''species_id'', ''price''] \<and>
           map_of m ''id'' = Some (PInt ident))) \<and>
   (PInt ident \<notin> set (map animal_id (animal_tbl d)) \<longrightarrow>
      AnimalsDAO_get_animal d ident = Inr None \<and> AnimalORM_get_animal d ident = Inr None)"
proof (intro conjI impI)
  assume "PInt ident \<in> set (map animal_id (animal_tbl d))"
  then have ex: "\<exists>r \<in> set (animal_tbl d). animal_id r = PInt ident"
    by auto
  then obtain r where f: "find (\<lambda>r. animal_id r = PInt ident) (animal_tbl d) = Some r"
    and pk: "animal_id r = PInt ident"
    using find_pk_present [of "animal_tbl d" animal_id "PInt ident"] by blast
  let ?m = "[(''id'', animal_id r), (''name'', animal_name r),
             (''center_id'', animal_center_id r), (''description'', animal_description r),
             (''age'', animal_age r), (''species_id'', animal_species_id r),
             (''price'', animal_price r)]"
  have raw: "AnimalsDAO_get_animal d ident = Inr (Some ?m)"
    by (simp add: AnimalsDAO_get_animal_def first_map_filter f AnimalsDAO_deserialize_long
        and_then_def) (simp add: animal_row_def)
  have orm: "AnimalORM_get_animal d ident = Inr (Some ?m)"
    by (simp add: AnimalORM_get_animal_def query_get_def f AnimalORM_deserialize_long)
  show "\<exists>m. AnimalsDAO_get_animal d ident = Inr (Some m) \<and>
           AnimalORM_get_animal d ident = Inr (Some m) \<and>
           map fst m = [''id'', ''name'', ''center_id'', ''description'', ''age'',
                        ''species_id'', ''price''] \<and>
           map_of m ''id'' = Some (PInt ident)"
    using raw orm pk by (intro exI [of _ ?m]) simp
next
  assume "PInt ident \<notin> set (map animal_id (animal_tbl d))"
  then have no: "\<forall>r \<in> set (animal_tbl d). animal_id r \<noteq> PInt ident"
    by force
  then show "AnimalsDAO_get_animal d ident = Inr None"
    by (simp add: AnimalsDAO_get_animal_def filter_pk_absent)
next
  assume "PInt ident \<notin> set (map animal_id (animal_tbl d))"
  then have no: "\<forall>r \<in> set (animal_tbl d). animal_id r \<noteq> PInt ident"
    by force
  then show "AnimalORM_get_animal d ident = Inr None"
    by (simp add: AnimalORM_get_animal_def query_get_def find_pk_absent)
qed

theorem get_animal_by_id_witness:
  "PInt 1 \<in> set (map animal_id (animal_tbl shop)) \<and>
   (\<exists>m. AnimalsDAO_get_animal shop 1 = Inr (Some m) \<and>
        AnimalORM_get_animal shop 1 = Inr (Some m) \<and>
        map_of m ''id'' = Some (PInt 1)) \<and>
   PInt 5 \<notin> set (map animal_id (animal_tbl shop)) \<and>
   AnimalsDAO_get_animal shop 5 = Inr None \<and> AnimalORM_get_animal shop 5 = Inr None"
proof -
  have p: "PInt 1 \<in> set (map animal_id (animal_tbl shop))"
    by (simp add: shop_def rex_def)
  have a: "PInt 5 \<notin> set (map animal_id (animal_tbl shop))"
    by (simp add: shop_def rex_def)
  from get_animal_by_id [of 1 shop] p get_animal_by_id [of 5 shop] a
  show ?thesis by blast
qed

subsection \<open>Center detail\<close>

text \<open>
  C4. For a stored center, \<open>get_center_inform\<close> is claimed to return, in every
  implementation, the pair of the long-form center mapping and the short-form mappings of
  the center's animals. On a center with two animals the raw-SQL DAO returns that pair; the
  ORM DAO raises \<open>AttributeError\<close> at \<open>record.animals\<close>; the entity method returns the
  center mapping alone.
\<close>

theorem get_center_inform_present_diverges:
  "PInt 7 \<in> set (map ac_id (animal_center_tbl shop2)) \<and>
   AnimalCentersDAO_get_center_inform shop2 7 =
     Inr (RetPair
            [(''id'', PInt 7), (''login'', PStr ''shelter''), (''address'', PStr ''Main St'')]
            [[(''id'', PInt 1), (''name'', PStr ''Rex'')],
             [(''id'', PInt 2), (''name'', PStr ''Tom'')]]) \<and>
   AnimalCenterORM_get_center_inform shop2 7 = Inl AttributeError \<and>
   AnimalCenter_get_center_inform shop2 7 =
     Inr (RetDict
            [(''id'', PInt 7), (''login'', PStr ''shelter''), (''address'', PStr ''Main St'')])"
  by (simp add: AnimalCentersDAO_get_center_inform_def AnimalCenterORM_get_center_inform_def
      AnimalCenter_get_center_inform_def AnimalCenter_animals_def query_get_def
      AnimalCentersDAO_deserialize_def AnimalCenterORM_deserialize_def
      AnimalCenter_deserialize_def AnimalsDAO_deserialize_def item_def and_then_def
      animal_row_def shop2_def shelter_def rex_def tom_def)

text \<open>
  The raw-SQL DAO does what the claim says on every state: the center mapping carries the
  requested identifier and the list holds the short form of exactly the animals of that
  center.
\<close>

lemma raw_get_center_inform_detail:
  assumes "PInt ident \<in> set (map ac_id (animal_center_tbl d))"
  shows "\<exists>c. AnimalCentersDAO_get_center_inform d ident =
           Inr (RetPair c (map (\<lambda>a. [(''id'', animal_id a), (''name'', animal_name a)])
                            (filter (\<lambda>a. animal_center_id a = PInt ident) (animal_tbl d)))) \<and>
           map fst c = [''id'', ''login'', ''address''] \<and>
           map_of c ''id'' = Some (PInt ident)"
proof -
  from assms have "\<exists>r \<in> set (animal_center_tbl d). ac_id r = PInt ident"
    by auto
  then obtain r
    where f: "first (map (\<lambda>x. x) (filter (\<lambda>r. ac_id r = PInt ident) (animal_center_tbl d)))
                = Some r"
      and pk: "ac_id r = PInt ident"
    using first_filter_pk_present [of "animal_center_tbl d" ac_id "PInt ident" "\<lambda>x. x"]
    by blast
  show ?thesis
    using f pk
    by (simp add: AnimalCentersDAO_get_center_inform_def and_then_def
        AnimalCentersDAO_deserialize_def comprehension_animal_rows)
qed

subsection \<open>Update animal\<close>











text \<open>
  What the raw-SQL DAO does outside the amended claim. \<open>None\<close> for \<open>description\<close> is sent
  as the literal \<open>'None'\<close> and stored as that text, where the ORM DAO stores NULL. A call
  without mapping, a mapping without \<open>id\<close> and a mapping with nothing but \<open>id\<close> raise. A
  string with a single quote leaves the statements covered here.
\<close>

lemma raw_update_none_stores_text:
  "AnimalsDAO_update_animal shop (Some [(''id'', PInt 1), (''description'', PNone)]) =
     Some (Inr (shop\<lparr>animal_tbl := [rex\<lparr>animal_description := PStr ''None''\<rparr>]\<rparr>)) \<and>
   AnimalORM_update_animal shop [(''description'', PNone)] 1 =
     Some (Inr (shop\<lparr>animal_tbl := [rex\<lparr>animal_description := PNone\<rparr>]\<rparr>))"
  by (simp add: AnimalsDAO_update_animal_def dict_pop_def execute_update_def set_clause_def
      animal_coltype_def quoted_literal_def AnimalORM_update_animal_def query_get_def
      session_commit_animal_def sql_update_animal_def primary_key_ok_def animal_setattr_def
      cell_fits_def typed_cell_def references_ok_def shop_def rex_def)

lemma raw_update_refused:
  "AnimalsDAO_update_animal shop None = Some (Inl AttributeError) \<and>
   AnimalsDAO_update_animal shop (Some [(''price'', PFloat 5)]) = Some (Inl KeyError) \<and>
   AnimalsDAO_update_animal shop (Some [(''id'', PInt 1)]) = Some (Inl DatabaseError)"
  by (simp add: AnimalsDAO_update_animal_def dict_pop_def execute_update_def)

lemma raw_update_quote_not_covered:
  "AnimalsDAO_update_animal shop (Some [(''id'', PInt 1), (''name'', PStr (''O'' @ [CHR 0x27] @ ''Neil''))]) = None"
  by (simp add: AnimalsDAO_update_animal_def dict_pop_def execute_update_def set_clause_def
      animal_coltype_def quoted_literal_def)



subsection \<open>Species listing\<close>

lemma inj_sort_rank: "inj sort_rank"
  by (auto simp: inj_def sort_rank_def word_uint_eq_iff split: pyval.splits)

lemma filter_key_other:
  "k \<noteq> k0 \<Longrightarrow> filter (\<lambda>x. key x = k) (filter (\<lambda>x. key x \<noteq> k0) rs) = filter (\<lambda>x. key x = k) rs"
  by (induction rs) auto

lemma find_key_other:
  "k \<noteq> k0 \<Longrightarrow> find (\<lambda>x. key x = k) (filter (\<lambda>x. key x \<noteq> k0) rs) = find (\<lambda>x. key x = k) rs"
  by (induction rs) auto

lemma partition_by_keys_set:
  "(\<lambda>g. key (fst g)) ` set (partition_by key rows) = key ` set rows"
proof (induction key rows rule: partition_by.induct)
  case (1 key)
  then show ?case by simp
next
  case (2 key r rs)
  have "key ` set (r # rs) = insert (key r) (key ` set (filter (\<lambda>x. key x \<noteq> key r) rs))"
    by auto
  with 2 show ?case by simp
qed

lemma partition_by_keys_distinct:
  "distinct (map (\<lambda>g. key (fst g)) (partition_by key rows))"
proof (induction key rows rule: partition_by.induct)
  case (1 key)
  then show ?case by simp
next
  case (2 key r rs)
  have "key r \<notin> key ` set (filter (\<lambda>x. key x \<noteq> key r) rs)"
    by (auto simp: image_iff)
  then have "key r \<notin> (\<lambda>g. key (fst g)) ` set (partition_by key (filter (\<lambda>x. key x \<noteq> key r) rs))"
    unfolding partition_by_keys_set .
  with 2 show ?case by simp
qed

lemma partition_by_group:
  "(r, grp) \<in> set (partition_by key rows) \<Longrightarrow>
     grp = filter (\<lambda>x. key x = key r) rows \<and> find (\<lambda>x. key x = key r) rows = Some r"
proof (induction key rows rule: partition_by.induct)
  case (1 key)
  then show ?case by simp
next
  case (2 key r0 rs)
  let ?rest = "filter (\<lambda>x. key x \<noteq> key r0) rs"
  show ?case
  proof (cases "(r, grp) = (r0, r0 # filter (\<lambda>x. key x = key r0) rs)")
    case True
    then show ?thesis by simp
  next
    case False
    with "2.prems" have mem: "(r, grp) \<in> set (partition_by key ?rest)"
      by auto
    then have ih: "grp = filter (\<lambda>x. key x = key r) ?rest"
      "find (\<lambda>x. key x = key r) ?rest = Some r"
      using "2.IH" by simp_all
    from mem have "key r \<in> (\<lambda>g. key (fst g)) ` set (partition_by key ?rest)"
      by force
    then have "key r \<in> key ` set ?rest"
      unfolding partition_by_keys_set .
    then have ne: "key r \<noteq> key r0"
      by (auto simp: image_iff)
    show ?thesis
      using ih ne filter_key_other [of "key r" "key r0" key rs]
        find_key_other [of "key r" "key r0" key rs]
      by simp
  qed
qed

lemma map_insort_key:
  "map f (insort_key (\<lambda>x. r (f x)) x xs) = insort_key r (f x) (map f xs)"
  by (induction xs) auto

lemma map_sort_key:
  "map f (sort_key (\<lambda>x. r (f x)) xs) = sort_key r (map f xs)"
  by (induction xs) (simp_all add: map_insort_key)

lemma sort_key_unique:
  assumes "distinct xs" "distinct ys" "set xs = set ys" "inj r"
  shows "sort_key r xs = sort_key r ys"
proof -
  have "map r (sort_key r xs) = map r (sort_key r ys)"
  proof (rule sorted_distinct_set_unique)
    show "sorted (map r (sort_key r xs))" by (rule sorted_sort_key)
    show "sorted (map r (sort_key r ys))" by (rule sorted_sort_key)
    show "distinct (map r (sort_key r xs))"
      using assms(1,4) by (simp add: distinct_map inj_on_def inj_def)
    show "distinct (map r (sort_key r ys))"
      using assms(2,4) by (simp add: distinct_map inj_on_def inj_def)
    show "set (map r (sort_key r xs)) = set (map r (sort_key r ys))"
      using assms(3) by simp
  qed
  then show ?thesis
    using assms(4) by simp
qed

lemma group_by_map:
  assumes out: "\<And>r. find (\<lambda>x. key x = key r) rows = Some r \<Longrightarrow>
                   out (r, filter (\<lambda>x. key x = key r) rows) = out_of (key r)"
    and ks: "distinct ks" "set ks = key ` set rows"
  shows "map out (group_by key rows) = map out_of (sort_key sort_rank ks)"
proof -
  let ?G = "partition_by key rows"
  let ?S = "sort_key (\<lambda>g. sort_rank (key (fst g))) ?G"
  have "map out ?S = map (\<lambda>g. out_of (key (fst g))) ?S"
  proof (rule map_cong [OF refl])
    fix g assume "g \<in> set ?S"
    then have gG: "g \<in> set ?G" by simp
    obtain r grp where g: "g = (r, grp)"
      by (cases g)
    with gG have "(r, grp) \<in> set ?G"
      by simp
    then have "grp = filter (\<lambda>x. key x = key r) rows"
      "find (\<lambda>x. key x = key r) rows = Some r"
      using partition_by_group [of r grp key rows] by simp_all
    then show "out g = out_of (key (fst g))"
      using out [of r] g by simp
  qed
  also have "\<dots> = map out_of (map (\<lambda>g. key (fst g)) ?S)"
    by (simp add: comp_def)
  also have "map (\<lambda>g. key (fst g)) ?S = sort_key sort_rank (map (\<lambda>g. key (fst g)) ?G)"
    by (rule map_sort_key)
  also have "sort_key sort_rank (map (\<lambda>g. key (fst g)) ?G) = sort_key sort_rank ks"
  proof (rule sort_key_unique)
    show "distinct (map (\<lambda>g. key (fst g)) ?G)" by (rule partition_by_keys_distinct)
    show "distinct ks" by (rule ks)
    show "set (map (\<lambda>g. key (fst g)) ?G) = set ks"
      using ks(2) partition_by_keys_set [of key rows] by simp
    show "inj sort_rank" by (rule inj_sort_rank)
  qed
  finally show ?thesis
    by (simp add: group_by_def)
qed

lemma left_outer_join_Cons:
  "left_outer_join (s # ss) as =
     (if filter (\<lambda>a. sql_eq (species_id s) (animal_species_id a)) as = [] then [(s, None)]
      else map (\<lambda>a. (s, Some a)) (filter (\<lambda>a. sql_eq (species_id s) (animal_species_id a)) as))
     @ left_outer_join ss as"
  by (simp add: left_outer_join_def)

lemma set_fst_left_outer_join: "fst ` set (left_outer_join ss as) = set ss"
proof (induction ss)
  case Nil
  then show ?case by (simp add: left_outer_join_def)
next
  case (Cons s ss)
  let ?ms = "filter (\<lambda>a. sql_eq (species_id s) (animal_species_id a)) as"
  have "fst ` set (if ?ms = [] then [(s, None)] else map (\<lambda>a. (s, Some a)) ?ms) = {s}"
    by (cases ?ms) auto
  then show ?case
    using Cons by (simp only: left_outer_join_Cons set_append image_Un) simp
qed

lemma join_keys: "(\<lambda>sa. f (fst sa)) ` set (left_outer_join ss as) = f ` set ss"
proof -
  have "(\<lambda>sa. f (fst sa)) ` set (left_outer_join ss as) =
      f ` (fst ` set (left_outer_join ss as))"
    by (simp add: image_image)
  then show ?thesis
    by (simp add: set_fst_left_outer_join)
qed

lemma find_app:
  "find P (xs @ ys) = (case find P xs of None \<Rightarrow> find P ys | Some x \<Rightarrow> Some x)"
  by (induction xs) auto

text \<open>The first joined row of a species is a row of the first such species.\<close>

lemma find_left_outer_join:
  "map_option fst (find (\<lambda>sa. P (fst sa)) (left_outer_join ss as)) = find P ss"
proof (induction ss)
  case Nil
  then show ?case by (simp add: left_outer_join_def)
next
  case (Cons s ss)
  let ?ms = "filter (\<lambda>a. sql_eq (species_id s) (animal_species_id a)) as"
  let ?rows = "if ?ms = [] then [(s, None)] else map (\<lambda>a. (s, Some a)) ?ms"
  have rows: "?rows \<noteq> [] \<and> (\<forall>sa \<in> set ?rows. fst sa = s)"
    by (cases ?ms) auto
  have j: "left_outer_join (s # ss) as = ?rows @ left_outer_join ss as"
    by (rule left_outer_join_Cons)
  show ?case
  proof (cases "P s")
    case True
    then have "\<exists>r. find (\<lambda>sa. P (fst sa)) ?rows = Some r \<and> fst r = s"
      using rows by (cases ?rows) auto
    then obtain r where fr: "find (\<lambda>sa. P (fst sa)) ?rows = Some r" and rs: "fst r = s"
      by blast
    have "find (\<lambda>sa. P (fst sa)) (left_outer_join (s # ss) as) = Some r"
      unfolding j by (simp only: find_app fr option.case)
    then show ?thesis
      using True rs by simp
  next
    case False
    then have fr: "find (\<lambda>sa. P (fst sa)) ?rows = None"
      by (cases ?ms) (auto simp: find_None_iff)
    have "find (\<lambda>sa. P (fst sa)) (left_outer_join (s # ss) as) =
        find (\<lambda>sa. P (fst sa)) (left_outer_join ss as)"
      unfolding j by (simp only: find_app fr option.case)
    then show ?thesis
      using False Cons by simp
  qed
qed

lemma count_animal_name_append:
  "count_animal_name (xs @ ys) = count_animal_name xs + count_animal_name ys"
  by (simp add: count_animal_name_def)

text \<open>Counting over the joined rows of some species is counting pairs on the tables.\<close>

lemma count_joined:
  "count_animal_name (filter (\<lambda>sa. P (fst sa)) (left_outer_join ss as)) =
     int (length (filter (\<lambda>(s, a). P s \<and> animal_species_id a = species_id s \<and>
                                   species_id s \<noteq> PNone \<and> animal_name a \<noteq> PNone)
                    (List.product ss as)))"
proof (induction ss)
  case Nil
  then show ?case by (simp add: left_outer_join_def count_animal_name_def)
next
  case (Cons s ss)
  let ?ms = "filter (\<lambda>a. sql_eq (species_id s) (animal_species_id a)) as"
  let ?rows = "if ?ms = [] then [(s, None)] else map (\<lambda>a. (s, Some a)) ?ms"
  have here: "count_animal_name (filter (\<lambda>sa. P (fst sa)) ?rows) =
      int (length (filter (\<lambda>(s, a). P s \<and> animal_species_id a = species_id s \<and>
                                   species_id s \<noteq> PNone \<and> animal_name a \<noteq> PNone) (map (Pair s) as)))"
  proof (cases "P s")
    case True
    have "filter (\<lambda>sa. P (fst sa)) ?rows = ?rows"
      using True by (cases ?ms) auto
    moreover have "count_animal_name ?rows = int (length (filter (\<lambda>a. animal_name a \<noteq> PNone) ?ms))"
      by (cases ?ms) (auto simp: count_animal_name_def filter_map comp_def)
    moreover have "filter (\<lambda>(s, a). P s \<and> animal_species_id a = species_id s \<and>
                                   species_id s \<noteq> PNone \<and> animal_name a \<noteq> PNone) (map (Pair s) as)
        = map (Pair s) (filter (\<lambda>a. animal_name a \<noteq> PNone) ?ms)"
      using True by (induction as) (auto simp: sql_eq_def)
    ultimately show ?thesis by simp
  next
    case False
    have "filter (\<lambda>sa. P (fst sa)) ?rows = []"
      using False by (cases ?ms) auto
    moreover have "filter (\<lambda>(s, a). P s \<and> animal_species_id a = species_id s \<and>
                                   species_id s \<noteq> PNone \<and> animal_name a \<noteq> PNone) (map (Pair s) as) = []"
      using False by (induction as) auto
    ultimately show ?thesis by (simp add: count_animal_name_def)
  qed
  show ?case
    using here Cons
    by (simp only: left_outer_join_Cons filter_append count_animal_name_append
        List.product.simps length_append of_nat_add)
qed

lemma count_joined_named:
  "count_animal_name (filter (\<lambda>sa. P (fst sa)) (left_outer_join (species_tbl d) (animal_tbl d)))
     = named_animals d P"
  by (simp add: count_joined named_animals_def)

lemma SpeciesDAO_deserialize_listing:
  "SpeciesDAO_deserialize [n, c] False = Inr [(''species_name'', n), (''count_of_animals'', c)]"
  by (simp add: SpeciesDAO_deserialize_def item_def and_then_def)

lemma SpeciesDAO_get_species_groups:
  "SpeciesDAO_get_species d =
     Inr (map (\<lambda>(r, grp). [(''species_name'', species_name (fst r)),
                            (''count_of_animals'', PInt (count_animal_name grp))])
            (group_by (\<lambda>sa. species_name (fst sa))
               (left_outer_join (species_tbl d) (animal_tbl d))))"
  unfolding SpeciesDAO_get_species_def Let_def
  by (subst comprehension_map
        [where g = "\<lambda>record. [(''species_name'', record ! 0),
                               (''count_of_animals'', record ! 1)]"])
     (auto simp: SpeciesDAO_deserialize_listing)

lemma SpeciesORM_get_species_groups:
  "SpeciesORM_get_species d =
     Inr (map (\<lambda>(r, grp). [(''species_name'', species_name (fst r)),
                            (''count_of_animals'', PInt (count_animal_name grp))])
            (group_by (\<lambda>sa. species_id (fst sa))
               (left_outer_join (species_tbl d) (animal_tbl d))))"
  unfolding SpeciesORM_get_species_def Let_def
  by (auto simp: case_prod_beta)

lemma SpeciesDAO_get_species_eq:
  "SpeciesDAO_get_species d =
     Inr (map (\<lambda>n. [(''species_name'', n),
                     (''count_of_animals'', PInt (named_animals d (\<lambda>s. species_name s = n)))])
            (sort_key sort_rank (remdups (map species_name (species_tbl d)))))"
proof -
  let ?rows = "left_outer_join (species_tbl d) (animal_tbl d)"
  have "map (\<lambda>(r, grp). [(''species_name'', species_name (fst r)),
                            (''count_of_animals'', PInt (count_animal_name grp))])
            (group_by (\<lambda>sa. species_name (fst sa)) ?rows)
      = map (\<lambda>n. [(''species_name'', n),
                     (''count_of_animals'', PInt (named_animals d (\<lambda>s. species_name s = n)))])
            (sort_key sort_rank (remdups (map species_name (species_tbl d))))"
  proof (rule group_by_map)
    show "distinct (remdups (map species_name (species_tbl d)))" by simp
    show "set (remdups (map species_name (species_tbl d))) =
        (\<lambda>sa. species_name (fst sa)) ` set ?rows"
      by (simp add: join_keys)
  next
    fix r :: "species \<times> animal option"
    show "(case (r, filter (\<lambda>x. species_name (fst x) = species_name (fst r)) ?rows) of
            (r, grp) \<Rightarrow> [(''species_name'', species_name (fst r)),
                          (''count_of_animals'', PInt (count_animal_name grp))])
        = [(''species_name'', species_name (fst r)),
           (''count_of_animals'',
            PInt (named_animals d (\<lambda>s. species_name s = species_name (fst r))))]"
      by (simp add: count_joined_named [of "\<lambda>s. species_name s = species_name (fst r)" d])
  qed
  then show ?thesis
    by (simp only: SpeciesDAO_get_species_groups)
qed

lemma SpeciesORM_get_species_eq:
  "SpeciesORM_get_species d =
     Inr (map (\<lambda>i. [(''species_name'',
                      case find (\<lambda>s. species_id s = i) (species_tbl d) of
                        Some s \<Rightarrow> species_name s
                      | None \<Rightarrow> PNone),
                     (''count_of_animals'', PInt (named_animals d (\<lambda>s. species_id s = i)))])
            (sort_key sort_rank (remdups (map species_id (species_tbl d)))))"
proof -
  let ?rows = "left_outer_join (species_tbl d) (animal_tbl d)"
  have "map (\<lambda>(r, grp). [(''species_name'', species_name (fst r)),
                            (''count_of_animals'', PInt (count_animal_name grp))])
            (group_by (\<lambda>sa. species_id (fst sa)) ?rows)
      = map (\<lambda>i. [(''species_name'',
                      case find (\<lambda>s. species_id s = i) (species_tbl d) of
                        Some s \<Rightarrow> species_name s
                      | None \<Rightarrow> PNone),
                     (''count_of_animals'', PInt (named_animals d (\<lambda>s. species_id s = i)))])
            (sort_key sort_rank (remdups (map species_id (species_tbl d))))"
  proof (rule group_by_map)
    show "distinct (remdups (map species_id (species_tbl d)))" by simp
    show "set (remdups (map species_id (species_tbl d))) =
        (\<lambda>sa. species_id (fst sa)) ` set ?rows"
      by (simp add: join_keys)
  next
    fix r :: "species \<times> animal option"
    assume "find (\<lambda>x. species_id (fst x) = species_id (fst r)) ?rows = Some r"
    then have "find (\<lambda>s. species_id s = species_id (fst r)) (species_tbl d) = Some (fst r)"
      using find_left_outer_join
        [of "\<lambda>s. species_id s = species_id (fst r)" "species_tbl d" "animal_tbl d"]
      by simp
    then show "(case (r, filter (\<lambda>x. species_id (fst x) = species_id (fst r)) ?rows) of
            (r, grp) \<Rightarrow> [(''species_name'', species_name (fst r)),
                          (''count_of_animals'', PInt (count_animal_name grp))])
        = [(''species_name'',
            case find (\<lambda>s. species_id s = species_id (fst r)) (species_tbl d) of
              Some s \<Rightarrow> species_name s
            | None \<Rightarrow> PNone),
           (''count_of_animals'',
            PInt (named_animals d (\<lambda>s. species_id s = species_id (fst r))))]"
      by (simp add: count_joined_named [of "\<lambda>s. species_id s = species_id (fst r)" d])
  qed
  then show ?thesis
    by (simp only: SpeciesORM_get_species_groups)
qed

lemma find_distinct_key:
  "distinct (map key xs) \<Longrightarrow> x \<in> set xs \<Longrightarrow> find (\<lambda>y. key y = key x) xs = Some x"
  by (induction xs) (auto simp: image_iff)

lemma SpeciesORM_get_species_rows:
  assumes "distinct (map species_id (species_tbl d))"
  shows "SpeciesORM_get_species d =
     Inr (map (\<lambda>s. [(''species_name'', species_name s),
                     (''count_of_animals'',
                      PInt (named_animals d (\<lambda>s'. species_id s' = species_id s)))])
            (sort_key (\<lambda>s. sort_rank (species_id s)) (species_tbl d)))"
proof -
  let ?S = "sort_key (\<lambda>s. sort_rank (species_id s)) (species_tbl d)"
  let ?row = "\<lambda>i. [(''species_name'',
                      case find (\<lambda>s. species_id s = i) (species_tbl d) of
                        Some s \<Rightarrow> species_name s
                      | None \<Rightarrow> PNone),
                     (''count_of_animals'', PInt (named_animals d (\<lambda>s. species_id s = i)))]"
  have "remdups (map species_id (species_tbl d)) = map species_id (species_tbl d)"
    using assms by (rule distinct_remdups_id)
  moreover have "map species_id ?S = sort_key sort_rank (map species_id (species_tbl d))"
    by (rule map_sort_key)
  ultimately have "sort_key sort_rank (remdups (map species_id (species_tbl d))) = map species_id ?S"
    by (simp only:)
  then have "map ?row (sort_key sort_rank (remdups (map species_id (species_tbl d))))
      = map (\<lambda>s. ?row (species_id s)) ?S"
    by (simp only: map_map comp_def)
  also have "\<dots> = map (\<lambda>s. [(''species_name'', species_name s),
                     (''count_of_animals'',
                      PInt (named_animals d (\<lambda>s'. species_id s' = species_id s)))]) ?S"
  proof (rule map_cong [OF refl])
    fix s assume "s \<in> set ?S"
    then have "s \<in> set (species_tbl d)" by simp
    then have "find (\<lambda>y. species_id y = species_id s) (species_tbl d) = Some s"
      using assms by (rule find_distinct_key [rotated])
    then show "?row (species_id s) = [(''species_name'', species_name s),
                     (''count_of_animals'',
                      PInt (named_animals d (\<lambda>s'. species_id s' = species_id s)))]"
      by simp
  qed
  finally show ?thesis
    by (simp only: SpeciesORM_get_species_eq)
qed

text \<open>
  C6. On every state both listings succeed. The raw-SQL listing has one row per distinct
  species name, in ascending order of the name: the name, and the number of named animals
  that refer to a species of that name. The ORM listing has one row per distinct species
  identifier, in ascending order of the identifier: the name of the species under that
  identifier, and the number of named animals that refer to it. With pairwise different
  identifiers (the primary key) the ORM listing is one row per species row; if moreover
  two rows share a name, the raw-SQL listing is shorter than the ORM listing and the two
  results differ.
\<close>

theorem species_listing_grouping:
  "SpeciesDAO_get_species d =
     Inr (map (\<lambda>n. [(''species_name'', n),
                     (''count_of_animals'', PInt (named_animals d (\<lambda>s. species_name s = n)))])
            (sort_key sort_rank (remdups (map species_name (species_tbl d))))) \<and>
   SpeciesORM_get_species d =
     Inr (map (\<lambda>i. [(''species_name'',
                      case find (\<lambda>s. species_id s = i) (species_tbl d) of
                        Some s \<Rightarrow> species_name s
                      | None \<Rightarrow> PNone),
                     (''count_of_animals'', PInt (named_animals d (\<lambda>s. species_id s = i)))])
            (sort_key sort_rank (remdups (map species_id (species_tbl d))))) \<and>
   (distinct (map species_id (species_tbl d)) \<longrightarrow>
      SpeciesORM_get_species d =
        Inr (map (\<lambda>s. [(''species_name'', species_name s),
                        (''count_of_animals'',
                         PInt (named_animals d (\<lambda>s'. species_id s' = species_id s)))])
               (sort_key (\<lambda>s. sort_rank (species_id s)) (species_tbl d))) \<and>
      (\<not> distinct (map species_name (species_tbl d)) \<longrightarrow>
         (\<exists>raw orm.
            SpeciesDAO_get_species d = Inr raw \<and> SpeciesORM_get_species d = Inr orm \<and>
            length orm = length (species_tbl d) \<and> length raw < length orm \<and> raw \<noteq> orm)))"
proof (intro conjI impI)
  show "SpeciesDAO_get_species d =
     Inr (map (\<lambda>n. [(''species_name'', n),
                     (''count_of_animals'', PInt (named_animals d (\<lambda>s. species_name s = n)))])
            (sort_key sort_rank (remdups (map species_name (species_tbl d)))))"
    by (rule SpeciesDAO_get_species_eq)
  show "SpeciesORM_get_species d =
     Inr (map (\<lambda>i. [(''species_name'',
                      case find (\<lambda>s. species_id s = i) (species_tbl d) of
                        Some s \<Rightarrow> species_name s
                      | None \<Rightarrow> PNone),
                     (''count_of_animals'', PInt (named_animals d (\<lambda>s. species_id s = i)))])
            (sort_key sort_rank (remdups (map species_id (species_tbl d)))))"
    by (rule SpeciesORM_get_species_eq)
next
  assume "distinct (map species_id (species_tbl d))"
  then show "SpeciesORM_get_species d =
        Inr (map (\<lambda>s. [(''species_name'', species_name s),
                        (''count_of_animals'',
                         PInt (named_animals d (\<lambda>s'. species_id s' = species_id s)))])
               (sort_key (\<lambda>s. sort_rank (species_id s)) (species_tbl d)))"
    by (rule SpeciesORM_get_species_rows)
next
  assume di: "distinct (map species_id (species_tbl d))"
    and nd: "\<not> distinct (map species_name (species_tbl d))"
  let ?raw = "map (\<lambda>n. [(''species_name'', n),
                     (''count_of_animals'', PInt (named_animals d (\<lambda>s. species_name s = n)))])
            (sort_key sort_rank (remdups (map species_name (species_tbl d))))"
  let ?orm = "map (\<lambda>s. [(''species_name'', species_name s),
                        (''count_of_animals'',
                         PInt (named_animals d (\<lambda>s'. species_id s' = species_id s)))])
               (sort_key (\<lambda>s. sort_rank (species_id s)) (species_tbl d))"
  have r: "SpeciesDAO_get_species d = Inr ?raw"
    by (rule SpeciesDAO_get_species_eq)
  have o: "SpeciesORM_get_species d = Inr ?orm"
    using di by (rule SpeciesORM_get_species_rows)
  have lo: "length ?orm = length (species_tbl d)"
    by simp
  have "length (remdups (map species_name (species_tbl d))) = length (map species_name (species_tbl d))
      \<longleftrightarrow> distinct (map species_name (species_tbl d))"
    by (simp only: length_remdups_eq remdups_id_iff_distinct)
  with nd have "length (remdups (map species_name (species_tbl d))) \<noteq> length (map species_name (species_tbl d))"
    by blast
  moreover have "length (remdups (map species_name (species_tbl d)))
      \<le> length (map species_name (species_tbl d))"
    by (rule length_remdups_leq)
  ultimately have lr: "length ?raw < length ?orm"
    by simp
  have ne: "?raw \<noteq> ?orm"
  proof
    assume "?raw = ?orm"
    then have "length ?raw = length ?orm"
      by (rule arg_cong)
    with lr show False
      by (simp only: less_irrefl)
  qed
  from r o lo lr ne show "\<exists>raw orm.
            SpeciesDAO_get_species d = Inr raw \<and> SpeciesORM_get_species d = Inr orm \<and>
            length orm = length (species_tbl d) \<and> length raw < length orm \<and> raw \<noteq> orm"
    by blast
qed

theorem species_listing_grouping_witness:
  "distinct (map species_id (species_tbl zoo)) \<and>
   \<not> distinct (map species_name (species_tbl zoo)) \<and>
   map species_id (species_tbl zoo) = [PInt 4, PInt 3, PInt 2] \<and>
   map species_name (species_tbl zoo) = [PStr ''dog'', PStr ''cat'', PStr ''cat''] \<and>
   SpeciesDAO_get_species zoo =
     Inr [[(''species_name'', PStr ''cat''), (''count_of_animals'', PInt 2)],
          [(''species_name'', PStr ''dog''), (''count_of_animals'', PInt 0)]] \<and>
   SpeciesORM_get_species zoo =
     Inr [[(''species_name'', PStr ''cat''), (''count_of_animals'', PInt 1)],
          [(''species_name'', PStr ''cat''), (''count_of_animals'', PInt 1)],
          [(''species_name'', PStr ''dog''), (''count_of_animals'', PInt 0)]] \<and>
   (\<exists>raw orm.
      SpeciesDAO_get_species zoo = Inr raw \<and> SpeciesORM_get_species zoo = Inr orm \<and>
      length orm = length (species_tbl zoo) \<and> length raw < length orm \<and> raw \<noteq> orm)"
proof -
  have h1: "distinct (map species_id (species_tbl zoo))"
    by (simp add: zoo_def dog_def stray_cat_def cat_def)
  have h2: "\<not> distinct (map species_name (species_tbl zoo))"
    by (simp add: zoo_def dog_def stray_cat_def cat_def)
  have h3: "map species_id (species_tbl zoo) = [PInt 4, PInt 3, PInt 2]"
    by (simp add: zoo_def dog_def stray_cat_def cat_def)
  have h4: "map species_name (species_tbl zoo) = [PStr ''dog'', PStr ''cat'', PStr ''cat'']"
    by (simp add: zoo_def dog_def stray_cat_def cat_def)
  note t = species_listing_grouping [of zoo]
  have raw: "SpeciesDAO_get_species zoo =
     Inr [[(''species_name'', PStr ''cat''), (''count_of_animals'', PInt 2)],
          [(''species_name'', PStr ''dog''), (''count_of_animals'', PInt 0)]]"
    using t [THEN conjunct1]
    by (simp add: zoo_def dog_def stray_cat_def cat_def rex_def tom_def named_animals_def
        sort_rank_def)
  have orm: "SpeciesORM_get_species zoo =
     Inr [[(''species_name'', PStr ''cat''), (''count_of_animals'', PInt 1)],
          [(''species_name'', PStr ''cat''), (''count_of_animals'', PInt 1)],
          [(''species_name'', PStr ''dog''), (''count_of_animals'', PInt 0)]]"
    using t [THEN conjunct2, THEN conjunct1]
    by (simp add: zoo_def dog_def stray_cat_def cat_def rex_def tom_def named_animals_def
        sort_rank_def)
  have ex: "\<exists>raw orm.
      SpeciesDAO_get_species zoo = Inr raw \<and> SpeciesORM_get_species zoo = Inr orm \<and>
      length orm = length (species_tbl zoo) \<and> length raw < length orm \<and> raw \<noteq> orm"
    using t [THEN conjunct2, THEN conjunct2, THEN mp, OF h1, THEN conjunct2, THEN mp, OF h2] .
  from h1 h2 h3 h4 raw orm ex show ?thesis
    by (intro conjI)
qed

subsection \<open>Password check\<close>

text \<open>
  C7. The entity-level \<open>check_password\<close> gives the same outcome for any two identifier
  arguments, \<open>None\<close> included, and that outcome is the verification of the plaintext
  against the hash stored on the instance.
\<close>

theorem entity_check_password_ignores_id:
  "AnimalCenter_check_password cph self password id1 =
     AnimalCenter_check_password cph self password id2 \<and>
   AnimalCenter_check_password cph self password id1 =
     cph (ac_password_hash self) password"
  by (simp add: AnimalCenter_check_password_def)

text \<open>
  C10. In the raw-SQL and ORM DAOs, \<open>check_password\<close> on an identifier that no center row
  carries raises \<open>AttributeError\<close> (the hash is read from \<open>None\<close>); so whenever either
  returns a boolean, a center row with that identifier exists.
\<close>

theorem check_password_needs_center:
  "(PInt user_id \<notin> set (map ac_id (animal_center_tbl d)) \<longrightarrow>
      AnimalCentersDAO_check_password cph d password user_id = Inl AttributeError \<and>
      AnimalCenterORM_check_password cph d password user_id = Inl AttributeError) \<and>
   (AnimalCentersDAO_check_password cph d password user_id = Inr b \<longrightarrow>
      PInt user_id \<in> set (map ac_id (animal_center_tbl d))) \<and>
   (AnimalCenterORM_check_password cph d password user_id = Inr b \<longrightarrow>
      PInt user_id \<in> set (map ac_id (animal_center_tbl d)))"
proof -
  have absent:
    "AnimalCentersDAO_check_password cph d password user_id = Inl AttributeError \<and>
     AnimalCenterORM_check_password cph d password user_id = Inl AttributeError"
    if "PInt user_id \<notin> set (map ac_id (animal_center_tbl d))"
  proof -
    from that have no: "\<forall>r \<in> set (animal_center_tbl d). ac_id r \<noteq> PInt user_id"
      by force
    show ?thesis
      using no
      by (simp add: AnimalCentersDAO_check_password_def AnimalCenterORM_check_password_def
          query_get_def find_pk_absent filter_pk_absent)
  qed
  show ?thesis
    using absent
    by (cases "PInt user_id \<in> set (map ac_id (animal_center_tbl d))") auto
qed

theorem check_password_needs_center_witness:
  "PInt 7 \<notin> set (map ac_id (animal_center_tbl shop)) \<and>
   AnimalCentersDAO_check_password example_hash_check shop ''secret'' 7 = Inl AttributeError \<and>
   AnimalCenterORM_check_password example_hash_check shop ''secret'' 7 = Inl AttributeError \<and>
   AnimalCentersDAO_check_password example_hash_check shop2 ''h'' 7 = Inr True \<and>
   AnimalCenterORM_check_password example_hash_check shop2 ''h'' 7 = Inr True \<and>
   PInt 7 \<in> set (map ac_id (animal_center_tbl shop2))"
proof -
  have a: "PInt 7 \<notin> set (map ac_id (animal_center_tbl shop))"
    by (simp add: shop_def)
  have b: "AnimalCentersDAO_check_password example_hash_check shop2 ''h'' 7 = Inr True"
    by (simp add: AnimalCentersDAO_check_password_def shop2_def shelter_def
        example_hash_check_def)
  have c: "AnimalCenterORM_check_password example_hash_check shop2 ''h'' 7 = Inr True"
    by (simp add: AnimalCenterORM_check_password_def query_get_def shop2_def shelter_def
        example_hash_check_def)
  from check_password_needs_center [of 7 shop example_hash_check "''secret''"] a
    check_password_needs_center [of 7 shop2 example_hash_check "''h''" True] b c
  show ?thesis by blast
qed

subsection \<open>Deserializers without the long flag\<close>

text \<open>
  C8, as claimed for the Species deserializer of every component, fails on the raw-SQL
  DAO: \<open>SpeciesDAO.deserialize\<close> has a branch for the call without \<open>long\<close> and returns the
  listing-row mapping built from the first two columns.
\<close>

theorem raw_species_deserialize_short_value:
  "SpeciesDAO_deserialize (species_row cat) False =
     Inr [(''species_name'', PInt 3), (''count_of_animals'', PStr ''cat'')]"
  by (simp add: SpeciesDAO_deserialize_def species_row_def item_def and_then_def cat_def)

text \<open>
  C8, amended. Without the long flag, the Species deserializers of the entity class and of
  the ORM DAO produce no value on any species record: they raise \<open>UnboundLocalError\<close>. The
  raw-SQL Species deserializer returns the mapping with the keys \<open>species_name\<close> and
  \<open>count_of_animals\<close>, filled from the first two columns. The Animal and Animal-Center
  deserializers of all three components return the short form (\<open>id\<close> and \<open>name\<close>, \<open>id\<close>
  and \<open>login\<close>).
\<close>

theorem deserialize_without_long:
  "Species_deserialize s False = Inl UnboundLocalError \<and>
   SpeciesORM_deserialize s False = Inl UnboundLocalError \<and>
   SpeciesDAO_deserialize (species_row s) False =
     Inr [(''species_name'', species_id s), (''count_of_animals'', species_name s)] \<and>
   Animal_deserialize a False = [(''id'', animal_id a), (''name'', animal_name a)] \<and>
   AnimalORM_deserialize a False = [(''id'', animal_id a), (''name'', animal_name a)] \<and>
   AnimalsDAO_deserialize (animal_row a) False =
     Inr [(''id'', animal_id a), (''name'', animal_name a)] \<and>
   AnimalCenter_deserialize c False = [(''id'', ac_id c), (''login'', ac_login c)] \<and>
   AnimalCenterORM_deserialize c False = [(''id'', ac_id c), (''login'', ac_login c)] \<and>
   AnimalCentersDAO_deserialize c False = [(''id'', ac_id c), (''login'', ac_login c)]"
  by (simp add: Species_deserialize_def SpeciesORM_deserialize_def SpeciesDAO_deserialize_def
      species_row_def Animal_deserialize_def AnimalORM_deserialize_def
      AnimalsDAO_deserialize_def animal_row_def AnimalCenter_deserialize_def
      AnimalCenterORM_deserialize_def AnimalCentersDAO_deserialize_def item_def and_then_def)

subsection \<open>Listing animals twice\<close>

lemma AnimalsDAO_get_animals_eq:
  "AnimalsDAO_get_animals d =
     Inr (map (\<lambda>r. [(''id'', animal_id r), (''name'', animal_name r)]) (animal_tbl d))"
  by (simp add: AnimalsDAO_get_animals_def comprehension_animal_rows)

lemma AnimalORM_get_animals_eq:
  "AnimalORM_get_animals d =
     Inr (map (\<lambda>r. [(''id'', animal_id r), (''name'', animal_name r)]) (animal_tbl d))"
  by (simp add: AnimalORM_get_animals_def AnimalORM_deserialize_def)

lemma Animal_get_animals_eq:
  "Animal_get_animals d =
     Inr (map (\<lambda>r. [(''id'', animal_id r), (''name'', animal_name r)]) (animal_tbl d))"
  by (simp add: Animal_get_animals_def Animal_deserialize_def)

text \<open>
  C9. Two calls of \<open>get_animals\<close> with no mutation in between see the same rows of the
  animal table, in whatever order each scan delivers them (\<open>d\<close> and \<open>d'\<close> hold the same
  multiset of rows). Each of the three implementations returns, on both calls, a list of
  mappings with the keys \<open>id\<close> and \<open>name\<close>, and the two lists are equal as sets.
\<close>

theorem get_animals_twice:
  "mset (animal_tbl d') = mset (animal_tbl d) \<longrightarrow>
     (\<exists>xs ys.
        AnimalsDAO_get_animals d = Inr xs \<and> AnimalsDAO_get_animals d' = Inr ys \<and>
        AnimalORM_get_animals d = Inr xs \<and> AnimalORM_get_animals d' = Inr ys \<and>
        Animal_get_animals d = Inr xs \<and> Animal_get_animals d' = Inr ys \<and>
        map (map fst) xs = replicate (length (animal_tbl d)) [''id'', ''name''] \<and>
        set xs = set ys)"
proof
  assume m: "mset (animal_tbl d') = mset (animal_tbl d)"
  let ?short = "\<lambda>r. [(''id'', animal_id r), (''name'', animal_name r)]"
  have "set (animal_tbl d') = set (animal_tbl d)"
    using m by (rule mset_eq_setD)
  then have s: "set (map ?short (animal_tbl d)) = set (map ?short (animal_tbl d'))"
    by simp
  have k: "map (map fst) (map ?short (animal_tbl d)) =
      replicate (length (animal_tbl d)) [''id'', ''name'']"
    by (simp add: map_replicate_const comp_def)
  show "\<exists>xs ys.
        AnimalsDAO_get_animals d = Inr xs \<and> AnimalsDAO_get_animals d' = Inr ys \<and>
        AnimalORM_get_animals d = Inr xs \<and> AnimalORM_get_animals d' = Inr ys \<and>
        Animal_get_animals d = Inr xs \<and> Animal_get_animals d' = Inr ys \<and>
        map (map fst) xs = replicate (length (animal_tbl d)) [''id'', ''name''] \<and>
        set xs = set ys"
    using s k
    by (intro exI [of _ "map ?short (animal_tbl d)"] exI [of _ "map ?short (animal_tbl d')"])
       (simp only: AnimalsDAO_get_animals_eq AnimalORM_get_animals_eq Animal_get_animals_eq
          simp_thms)
qed

theorem get_animals_twice_witness:
  "mset (animal_tbl shop2_reordered) = mset (animal_tbl shop2) \<and>
   (\<exists>xs ys.
      AnimalsDAO_get_animals shop2 = Inr xs \<and> AnimalsDAO_get_animals shop2_reordered = Inr ys \<and>
      AnimalORM_get_animals shop2 = Inr xs \<and> AnimalORM_get_animals shop2_reordered = Inr ys \<and>
      Animal_get_animals shop2 = Inr xs \<and> Animal_get_animals shop2_reordered = Inr ys \<and>
      set xs = set ys)"
proof -
  have h: "mset (animal_tbl shop2_reordered) = mset (animal_tbl shop2)"
    by (simp add: shop2_def shop2_reordered_def)
  from get_animals_twice [of shop2_reordered shop2] h show ?thesis
    by blast
qed

end
